theory Spec2Isabelle
  imports Main
begin

section \<open>Python values and built-ins used by process.py\<close>

text \<open>
  Exceptions are values: every function of the program that can raise returns
  \<open>error + 'a\<close>, with \<open>Inl\<close> the exception that propagates. Strings are lists of
  characters with code points below 256.
\<close>

datatype error =
    ValueError | OverflowError | IndexError | KeyError | UnboundLocalError
  | AttributeError | FileExistsError

definition and_then :: "error + 'a \<Rightarrow> ('a \<Rightarrow> error + 'b) \<Rightarrow> error + 'b" where
  "and_then r f = (case r of Inl e \<Rightarrow> Inl e | Inr v \<Rightarrow> f v)"

definition is_space :: "char \<Rightarrow> bool" where
  \<comment> \<open>the characters \<open>int()\<close> strips: \<open>\t \n \v \f \r\<close>, \<open>0x1c..0x20\<close>, \<open>0x85\<close>, \<open>0xa0\<close>\<close>
  "is_space c =
     (let n = (of_char c :: nat)
      in (9 \<le> n \<and> n \<le> 13) \<or> (28 \<le> n \<and> n \<le> 32) \<or> n = 133 \<or> n = 160)"

definition is_digit :: "char \<Rightarrow> bool" where
  "is_digit c = (let n = (of_char c :: nat) in 48 \<le> n \<and> n \<le> 57)"

definition digit_val :: "char \<Rightarrow> nat" where
  "digit_val c = of_char c - 48"

definition strip :: "string \<Rightarrow> string" where
  "strip s = rev (dropWhile is_space (rev (dropWhile is_space s)))"

fun digits_acc :: "nat \<Rightarrow> string \<Rightarrow> nat option" where
  "digits_acc acc [] = Some acc"
| "digits_acc acc (c # cs) =
     (if is_digit c then digits_acc (10 * acc + digit_val c) cs
      else if c = CHR ''_'' \<and> cs \<noteq> [] \<and> is_digit (hd cs) then digits_acc acc cs
      else None)"

definition py_int :: "string \<Rightarrow> error + int" where
  \<comment> \<open>\<open>int(s)\<close>: surrounding whitespace, an optional sign, decimal digits with single
      underscores between them; anything else is a ValueError (the limit that newer
      interpreters put on the number of digits is not modelled)\<close>
  "py_int s =
     (case strip s of
        [] \<Rightarrow> Inl ValueError
      | c # r \<Rightarrow>
          (let neg = (c = CHR ''-'');
               ds = (if c = CHR ''-'' \<or> c = CHR ''+'' then r else c # r)
           in if ds \<noteq> [] \<and> is_digit (hd ds)
              then (case digits_acc 0 ds of
                      None \<Rightarrow> Inl ValueError
                    | Some n \<Rightarrow> Inr (if neg then - int n else int n))
              else Inl ValueError))"

fun split_on :: "char \<Rightarrow> string \<Rightarrow> string list" where
  "split_on sep [] = [[]]"
| "split_on sep (c # cs) =
     (if c = sep then [] # split_on sep cs
      else (case split_on sep cs of
              [] \<Rightarrow> [[c]]
            | p # ps \<Rightarrow> (c # p) # ps))"

subsection \<open>datetime\<close>

text \<open>
  \<open>datetime(year, month, day)\<close>: the three arguments are converted to C ints
  (OverflowError beyond 32 bits), then range-checked (ValueError). The time of day is
  midnight throughout the program, so a value is its date.
\<close>

record datetime =
  dt_year :: int
  dt_month :: int
  dt_day :: int

definition fits_c_int :: "int \<Rightarrow> bool" where
  "fits_c_int n = (- 2147483648 \<le> n \<and> n \<le> 2147483647)"

definition is_leap :: "int \<Rightarrow> bool" where
  "is_leap y = (if y mod 100 = 0 then y mod 400 = 0 else y mod 4 = 0)"

definition days_in_month :: "int \<Rightarrow> int \<Rightarrow> int" where
  "days_in_month y m =
     (if m = 2 then (if is_leap y then 29 else 28)
      else if m = 4 \<or> m = 6 \<or> m = 9 \<or> m = 11 then 30 else 31)"

definition py_datetime :: "int \<Rightarrow> int \<Rightarrow> int \<Rightarrow> error + datetime" where
  "py_datetime y m d =
     (if \<not> (fits_c_int y \<and> fits_c_int m \<and> fits_c_int d) then Inl OverflowError
      else if y < 1 \<or> 9999 < y then Inl ValueError
      else if m < 1 \<or> 12 < m then Inl ValueError
      else if d < 1 \<or> days_in_month y m < d then Inl ValueError
      else Inr \<lparr>dt_year = y, dt_month = m, dt_day = d\<rparr>)"

definition digit_char :: "nat \<Rightarrow> char" where
  "digit_char n = ''0123456789'' ! (n mod 10)"

definition pad2 :: "nat \<Rightarrow> string" where
  "pad2 n = [digit_char (n div 10), digit_char n]"

definition pad4 :: "nat \<Rightarrow> string" where
  "pad4 n = [digit_char (n div 1000), digit_char (n div 100), digit_char (n div 10), digit_char n]"

definition isoformat :: "datetime \<Rightarrow> string" where
  \<comment> \<open>\<open>YYYY-MM-DDT00:00:00\<close>\<close>
  "isoformat d =
     pad4 (nat (dt_year d)) @ ''-'' @ pad2 (nat (dt_month d)) @ ''-'' @ pad2 (nat (dt_day d))
       @ ''T00:00:00''"

section \<open>Node builders\<close>

subsection \<open>parse_date\<close>

definition parse_date :: "string option \<Rightarrow> error + datetime option" where
  "parse_date source =
     (case source of
        None \<Rightarrow> Inr None
      | Some s \<Rightarrow>
          if s = [] then Inr None
          else (case split_on CHR ''.'' s of
                  [year, month] \<Rightarrow>
                    and_then (py_int year) (\<lambda>y.
                    and_then (py_int month) (\<lambda>m.
                    and_then (py_datetime y (m + 1) 1) (\<lambda>d. Inr (Some d))))
                | _ \<Rightarrow> Inl ValueError))"

subsection \<open>Reference normalizer\<close>

definition is_alnum :: "char \<Rightarrow> bool" where
  "is_alnum c =
     (let n = (of_char c :: nat)
      in (48 \<le> n \<and> n \<le> 57) \<or> (65 \<le> n \<and> n \<le> 90) \<or> (97 \<le> n \<and> n \<le> 122))"

definition lower_char :: "char \<Rightarrow> char" where
  "lower_char c =
     (let n = (of_char c :: nat)
      in if 65 \<le> n \<and> n \<le> 90 then ''abcdefghijklmnopqrstuvwxyz'' ! (n - 65) else c)"

definition lower :: "string \<Rightarrow> string" where
  \<comment> \<open>\<open>str.lower()\<close> on ASCII text\<close>
  "lower s = map lower_char s"

fun collapse :: "bool \<Rightarrow> string \<Rightarrow> string" where
  \<comment> \<open>the flag says that the previous character belonged to a non-alphanumeric run,
      whose separator has been produced already\<close>
  "collapse in_run [] = []"
| "collapse in_run (c # cs) =
     (if is_alnum c then c # collapse False cs
      else if in_run then collapse True cs
      else CHR ''-'' # collapse True cs)"

text \<open>
  Modelled from the spec: \<open>slugify\<close> is imported from the python-slugify package and
  is not part of the repository's source. The spec (4.1) describes the key as
  "slug-style: lowercase, non-alphanumeric runs collapsed to a separator"; the
  separator is \<open>-\<close>, and the alphanumeric characters are the ASCII letters and digits.
\<close>

definition slugify :: "string \<Rightarrow> string" where
  "slugify text = collapse False (lower text)"

subsection \<open>Geometry\<close>

text \<open>
  A value returned by \<open>json.loads\<close> is a list or something else; \<open>get_depth\<close> tells
  the two apart and nothing more, so the values that are not lists (None, booleans,
  numbers, strings, dicts) are the atoms of type \<open>'a\<close>.
\<close>

datatype 'a json = JAtom 'a | JList "'a json list"

fun get_depth :: "'a json \<Rightarrow> error + nat" where
  "get_depth (JAtom a) = Inr 0"
| "get_depth (JList []) = Inl IndexError"
| "get_depth (JList (x # xs)) = (case get_depth x of Inl e \<Rightarrow> Inl e | Inr d \<Rightarrow> Inr (d + 1))"

text \<open>
  The functions of the imported packages are parameters of the model: the slug
  function, \<open>json.loads\<close>, the pygeoif constructors \<open>geometry.Point(*coords)\<close> and
  \<open>geometry.Polygon(shell, holes)\<close> with the truth value of the object they build
  (\<open>'g\<close> stands for a geometry and its \<open>__geo_interface__\<close>), and dateutil's \<open>parse\<close>.
  Each may raise.
\<close>

record ('a, 'g) library =
  lib_slugify :: "string \<Rightarrow> string"
  lib_json_loads :: "string \<Rightarrow> error + 'a json"
  lib_Point :: "'a json list \<Rightarrow> error + 'g"
  lib_Polygon :: "'a json \<Rightarrow> 'a json list option \<Rightarrow> error + 'g"
  lib_bool :: "'g \<Rightarrow> bool"
  lib_parse :: "string \<Rightarrow> error + datetime"

definition startswith :: "string \<Rightarrow> string \<Rightarrow> bool" where
  "startswith s p = (take (length p) s = p)"

definition build_geom :: "('a, 'g) library \<Rightarrow> 'a json \<Rightarrow> nat \<Rightarrow> error + 'g option" where
  \<comment> \<open>lines 71 to 75: a depth of 1 or 3 is only reached on a non-empty list\<close>
  "build_geom L raw_geom depth =
     (case raw_geom of
        JList (shell # holes) \<Rightarrow>
          if depth = 1 then
            (case lib_Point L (shell # holes) of Inl e \<Rightarrow> Inl e | Inr g \<Rightarrow> Inr (Some g))
          else if depth = 3 then
            (case lib_Polygon L shell (if holes = [] then None else Some holes) of
               Inl e \<Rightarrow> Inl e | Inr g \<Rightarrow> Inr (Some g))
          else Inr None
      | _ \<Rightarrow> Inr None)"

definition geo_interface :: "('a, 'g) library \<Rightarrow> 'g option \<Rightarrow> 'g option" where
  \<comment> \<open>lines 77 to 79\<close>
  "geo_interface L geom =
     (case geom of None \<Rightarrow> None | Some g \<Rightarrow> if lib_bool L g then Some g else None)"

definition get_geometry ::
  "('a, 'g) library \<Rightarrow> string option \<Rightarrow> string list \<times> (error + 'g option)" where
  \<comment> \<open>the first component is what the call prints\<close>
  "get_geometry L source =
     (case source of
        None \<Rightarrow> ([], Inr None)
      | Some s \<Rightarrow>
          if s = [] then ([], Inr None)
          else if startswith s ''Multipolygon'' then ([], Inr None)
          else (case lib_json_loads L s of
                  Inl e \<Rightarrow> if e = ValueError then ([s], Inr None) else ([], Inl e)
                | Inr raw_geom \<Rightarrow>
                    ([], and_then (get_depth raw_geom) (\<lambda>depth.
                         and_then (build_geom L raw_geom depth) (\<lambda>geom.
                         Inr (geo_interface L geom))))))"

subsection \<open>Rows of the four registries\<close>

text \<open>
  \<open>csv.DictReader\<close> yields one dict per row, a string per column (the empty string
  for an empty cell). A row is a record of the columns the program reads; the six
  columns \<open>Theme1\<close> to \<open>Theme6\<close> are the list \<open>Themes\<close>, in this order. Columns that are
  only copied into a node's properties and never read again are left out.
\<close>

record theme_row =
  theme_theme :: string
  theme_description :: string
  theme_link :: string

record variable_row =
  variable_variable :: string
  variable_description :: string
  variable_theme :: string
  variable_link :: string

record product_row =
  product_ID :: string
  product_Product :: string
  product_Start :: string
  product_End :: string
  product_Polygon :: string
  product_Variable :: string
  product_Themes :: "string list"
  product_Website :: string
  product_Access :: string
  product_Documentation :: string

record project_row =
  project_Project_ID :: string
  project_Project_Name :: string
  project_Start_Date_Project :: string
  project_End_Date_Project :: string
  project_Themes :: "string list"
  project_Website :: string
  project_Eo4Society_link :: string

subsection \<open>Nodes\<close>

record link =
  link_rel :: string
  link_target :: string

record collection =
  coll_id :: string
  coll_description :: string
  coll_type :: string
  coll_theme :: "string option"  \<comment> \<open>\<open>extra_fields["osc:theme"]\<close>, set on a Variable only\<close>
  coll_links :: "link list"

record 'g product_item =
  pi_id :: string
  pi_geometry :: "'g option"
  pi_datetime :: "datetime option"
  pi_start_datetime :: "string option"
  pi_end_datetime :: "string option"
  pi_title :: string
  pi_themes :: "string list"
  pi_variable :: string
  pi_type :: string
  pi_links :: "link list"

record project_item =
  pj_id :: string
  pj_datetime :: datetime
  pj_start_datetime :: string
  pj_end_datetime :: string
  pj_title :: string
  pj_themes :: "string list"
  pj_type :: string
  pj_links :: "link list"

definition VIA :: string where
  "VIA = ''via''"

definition get_themes :: "string list \<Rightarrow> string list" where
  "get_themes slots = filter (\<lambda>t. t \<noteq> []) slots"

definition date_property :: "string \<Rightarrow> error + string option" where
  \<comment> \<open>\<open>cell and parse_date(cell).isoformat() or None\<close>\<close>
  "date_property cell =
     (if cell = [] then Inr None
      else and_then (parse_date (Some cell)) (\<lambda>d.
             case d of None \<Rightarrow> Inl AttributeError | Some dt \<Rightarrow> Inr (Some (isoformat dt))))"

definition date_argument :: "string \<Rightarrow> error + datetime option" where
  \<comment> \<open>\<open>cell and parse_date(cell) or None\<close>\<close>
  "date_argument cell = (if cell = [] then Inr None else parse_date (Some cell))"

definition product_to_item ::
  "('a, 'g) library \<Rightarrow> product_row \<Rightarrow> string list \<times> (error + 'g product_item)" where
  "product_to_item L obj =
     (case date_property (product_Start obj) of
        Inl e \<Rightarrow> ([], Inl e)
      | Inr start \<Rightarrow>
     (case date_property (product_End obj) of
        Inl e \<Rightarrow> ([], Inl e)
      | Inr end_iso \<Rightarrow>
     (case get_geometry L (Some (product_Polygon obj)) of
        (printed, Inl e) \<Rightarrow> (printed, Inl e)
      | (printed, Inr geom) \<Rightarrow>
     (case date_argument (product_Start obj) of
        Inl e \<Rightarrow> (printed, Inl e)
      | Inr dt \<Rightarrow>
          (printed, Inr \<lparr>pi_id = ''product-'' @ product_ID obj,
                         pi_geometry = geom,
                         pi_datetime = dt,
                         pi_start_datetime = start,
                         pi_end_datetime = end_iso,
                         pi_title = product_Product obj,
                         pi_themes = get_themes (product_Themes obj),
                         pi_variable = product_Variable obj,
                         pi_type = ''Product'',
                         pi_links = [\<lparr>link_rel = VIA, link_target = product_Website obj\<rparr>,
                                     \<lparr>link_rel = VIA, link_target = product_Access obj\<rparr>,
                                     \<lparr>link_rel = VIA, link_target = product_Documentation obj\<rparr>]\<rparr>)))))"

definition project_to_item :: "('a, 'g) library \<Rightarrow> project_row \<Rightarrow> error + project_item" where
  "project_to_item L obj =
     and_then (lib_parse L (project_Start_Date_Project obj)) (\<lambda>start.
     and_then (lib_parse L (project_End_Date_Project obj)) (\<lambda>end_dt.
     and_then (lib_parse L (project_Start_Date_Project obj)) (\<lambda>dt.
       Inr \<lparr>pj_id = ''project-'' @ project_Project_ID obj,
            pj_datetime = dt,
            pj_start_datetime = isoformat start,
            pj_end_datetime = isoformat end_dt,
            pj_title = project_Project_Name obj,
            pj_themes = get_themes (project_Themes obj),
            pj_type = ''Project'',
            pj_links = [\<lparr>link_rel = VIA, link_target = project_Website obj\<rparr>,
                        \<lparr>link_rel = VIA, link_target = project_Eo4Society_link obj\<rparr>]\<rparr>)))"

definition theme_to_collection :: "theme_row \<Rightarrow> collection" where
  "theme_to_collection obj =
     \<lparr>coll_id = strip (theme_theme obj),
      coll_description = theme_description obj,
      coll_type = ''Theme'',
      coll_theme = None,
      coll_links = [\<lparr>link_rel = VIA, link_target = theme_link obj\<rparr>]\<rparr>"

definition variable_to_collection :: "variable_row \<Rightarrow> collection" where
  "variable_to_collection obj =
     \<lparr>coll_id = strip (variable_variable obj),
      coll_description = variable_description obj,
      coll_type = ''Variable'',
      coll_theme = Some (variable_theme obj),
      coll_links = [\<lparr>link_rel = VIA, link_target = variable_link obj\<rparr>]\<rparr>"

section \<open>Hierarchy builder\<close>

text \<open>
  The nodes are objects that the program mutates in place. A node is named by its
  position in the list that built it (\<open>theme_collections\<close>, \<open>variable_collections\<close>,
  \<open>product_items\<close>, \<open>project_items\<close>), so two rows with equal ids are still two nodes.
  \<open>add_child\<close> and \<open>add_item\<close> append a link to the parent; \<open>get_collections\<close> and
  \<open>get_items\<close> enumerate the linked nodes in the order they were added. The tree is
  the three families of lists below, one list per parent.
\<close>

definition add_to :: "nat \<Rightarrow> nat \<Rightarrow> nat list list \<Rightarrow> nat list list" where
  "add_to parent x ls = ls[parent := ls ! parent @ [x]]"

definition dict_of :: "('k \<times> 'v) list \<Rightarrow> ('k \<rightharpoonup> 'v)" where
  \<comment> \<open>a dict comprehension: of two equal keys the later one stays\<close>
  "dict_of kvs = map_of (rev kvs)"

definition slug_map :: "('a, 'g) library \<Rightarrow> collection list \<Rightarrow> (string \<rightharpoonup> nat)" where
  \<comment> \<open>lines 244 to 247 and 254 to 257\<close>
  "slug_map L colls =
     dict_of (map (\<lambda>(i, coll). (lib_slugify L (coll_id coll), i)) (enumerate 0 colls))"

fun place_variables ::
  "('a, 'g) library \<Rightarrow> (string \<rightharpoonup> nat) \<Rightarrow> (nat \<times> collection) list \<Rightarrow> nat list list
     \<Rightarrow> error + nat list list" where
  "place_variables L theme_map [] children = Inr children"
| "place_variables L theme_map ((v, coll) # rest) children =
     (case coll_theme coll of
        None \<Rightarrow> Inl KeyError
      | Some th \<Rightarrow>
          (case theme_map (lib_slugify L th) of
             None \<Rightarrow> Inl KeyError
           | Some t \<Rightarrow> place_variables L theme_map rest (add_to t v children)))"

text \<open>
  Lines 276 to 281. The local \<open>variable_coll\<close> is unbound before the first successful
  lookup and keeps its value from one iteration to the next; \<open>add_item\<close> is called
  after the \<open>try\<close> statement, whether the lookup succeeded or not.
\<close>

fun put_products ::
  "('a, 'g) library \<Rightarrow> (string \<rightharpoonup> nat) \<Rightarrow> (nat \<times> 'g product_item) list \<Rightarrow> nat option
     \<Rightarrow> string list \<Rightarrow> nat list list \<Rightarrow> string list \<times> (error + nat list list)" where
  "put_products L variable_map [] variable_coll printed items = (printed, Inr items)"
| "put_products L variable_map ((p, item) # rest) variable_coll printed items =
     (case variable_map (lib_slugify L (pi_variable item)) of
        Some v \<Rightarrow> put_products L variable_map rest (Some v) printed (add_to v p items)
      | None \<Rightarrow>
          (case variable_coll of
             None \<Rightarrow> (printed @ [''Missing variable '' @ pi_variable item], Inl UnboundLocalError)
           | Some v \<Rightarrow>
               put_products L variable_map rest (Some v)
                 (printed @ [''Missing variable '' @ pi_variable item]) (add_to v p items)))"

fun put_project ::
  "('a, 'g) library \<Rightarrow> (string \<rightharpoonup> nat) \<Rightarrow> nat \<Rightarrow> string list \<Rightarrow> nat list list
     \<Rightarrow> error + nat list list" where
  "put_project L theme_map p [] items = Inr items"
| "put_project L theme_map p (theme # rest) items =
     (case theme_map (lib_slugify L theme) of
        None \<Rightarrow> Inl KeyError
      | Some t \<Rightarrow> put_project L theme_map p rest (add_to t p items))"

fun put_projects ::
  "('a, 'g) library \<Rightarrow> (string \<rightharpoonup> nat) \<Rightarrow> (nat \<times> project_item) list \<Rightarrow> nat list list
     \<Rightarrow> error + nat list list" where
  "put_projects L theme_map [] items = Inr items"
| "put_projects L theme_map ((p, item) # rest) items =
     (case put_project L theme_map p (pj_themes item) items of
        Inl e \<Rightarrow> Inl e
      | Inr items' \<Rightarrow> put_projects L theme_map rest items')"

fun product_items_of ::
  "('a, 'g) library \<Rightarrow> product_row list \<Rightarrow> string list \<times> (error + 'g product_item list)" where
  \<comment> \<open>the list comprehension of lines 259 to 262, with what it prints\<close>
  "product_items_of L [] = ([], Inr [])"
| "product_items_of L (product # rest) =
     (case product_to_item L product of
        (printed, Inl e) \<Rightarrow> (printed, Inl e)
      | (printed, Inr item) \<Rightarrow>
          (case product_items_of L rest of
             (printed', Inl e) \<Rightarrow> (printed @ printed', Inl e)
           | (printed', Inr items) \<Rightarrow> (printed @ printed', Inr (item # items))))"

fun project_items_of ::
  "('a, 'g) library \<Rightarrow> project_row list \<Rightarrow> error + project_item list" where
  "project_items_of L [] = Inr []"
| "project_items_of L (project # rest) =
     (case project_to_item L project of
        Inl e \<Rightarrow> Inl e
      | Inr item \<Rightarrow>
          (case project_items_of L rest of
             Inl e \<Rightarrow> Inl e
           | Inr items \<Rightarrow> Inr (item # items)))"

section \<open>Aggregation engine\<close>

record variable_stats =
  v_years :: "int list"
  v_numberOfProducts :: nat

record theme_stats =
  t_years :: "int list"
  t_numberOfProducts :: nat
  t_numberOfVariables :: nat
  t_numberOfProjects :: nat

record catalog_stats =
  c_numberOfProducts :: nat
  c_numberOfProjects :: nat
  c_numberOfVariables :: nat
  c_numberOfThemes :: nat
  c_years :: "int list"

fun variable_loop ::
  "('a, 'g) library \<Rightarrow> (nat \<times> 'g product_item) list \<Rightarrow> int set \<Rightarrow> nat
     \<Rightarrow> error + int set \<times> nat" where
  \<comment> \<open>lines 295 to 300: \<open>i\<close> takes the number that \<open>enumerate\<close> gives the item\<close>
  "variable_loop L [] years i = Inr (years, i)"
| "variable_loop L ((k, item) # rest) years i =
     (case pi_start_datetime item of
        None \<Rightarrow> variable_loop L rest years k
      | Some s \<Rightarrow>
          if s = [] then variable_loop L rest years k
          else (case lib_parse L s of
                  Inl e \<Rightarrow> Inl e
                | Inr d \<Rightarrow> variable_loop L rest (insert (dt_year d) years) k))"

definition variable_summary ::
  "('a, 'g) library \<Rightarrow> 'g product_item list \<Rightarrow> nat list \<Rightarrow> error + variable_stats" where
  \<comment> \<open>lines 293 to 303, for one Variable whose \<open>get_items()\<close> are the given products\<close>
  "variable_summary L product_items items =
     (case variable_loop L (enumerate 1 (map (\<lambda>p. product_items ! p) items)) {} 0 of
        Inl e \<Rightarrow> Inl e
      | Inr (years, i) \<Rightarrow>
          Inr \<lparr>v_years = sorted_list_of_set years, v_numberOfProducts = i\<rparr>)"

fun variable_summaries ::
  "('a, 'g) library \<Rightarrow> 'g product_item list \<Rightarrow> nat list list \<Rightarrow> error + variable_stats list" where
  "variable_summaries L product_items [] = Inr []"
| "variable_summaries L product_items (items # rest) =
     (case variable_summary L product_items items of
        Inl e \<Rightarrow> Inl e
      | Inr st \<Rightarrow>
          (case variable_summaries L product_items rest of
             Inl e \<Rightarrow> Inl e
           | Inr sts \<Rightarrow> Inr (st # sts)))"

fun theme_loop ::
  "variable_stats list \<Rightarrow> (nat \<times> nat) list \<Rightarrow> int set \<Rightarrow> nat \<Rightarrow> nat \<Rightarrow> int set \<times> nat \<times> nat" where
  \<comment> \<open>lines 309 to 311\<close>
  "theme_loop vstats [] years number_of_products i = (years, number_of_products, i)"
| "theme_loop vstats ((k, sub_coll) # rest) years number_of_products i =
     theme_loop vstats rest (years \<union> set (v_years (vstats ! sub_coll)))
       (number_of_products + v_numberOfProducts (vstats ! sub_coll)) k"

fun count_loop :: "(nat \<times> nat) list \<Rightarrow> nat \<Rightarrow> nat" where
  \<comment> \<open>lines 317 and 318: the body is \<open>pass\<close>, the loop only moves \<open>i\<close>\<close>
  "count_loop [] i = i"
| "count_loop ((k, item) # rest) i = count_loop rest k"

definition theme_summary :: "variable_stats list \<Rightarrow> nat list \<Rightarrow> nat list \<Rightarrow> theme_stats" where
  \<comment> \<open>lines 306 to 320, for one Theme with the given child Variables and Project items\<close>
  "theme_summary vstats children items =
     (case theme_loop vstats (enumerate 1 children) {} 0 0 of
        (years, number_of_products, i) \<Rightarrow>
          \<lparr>t_years = sorted_list_of_set years,
           t_numberOfProducts = number_of_products,
           t_numberOfVariables = i,
           t_numberOfProjects = count_loop (enumerate 1 items) i\<rparr>)"

fun catalog_loop ::
  "(nat \<times> theme_stats) list \<Rightarrow> int set \<Rightarrow> nat \<Rightarrow> nat \<Rightarrow> nat \<Rightarrow> int set \<times> nat \<times> nat \<times> nat" where
  \<comment> \<open>lines 326 to 329\<close>
  "catalog_loop [] years number_of_products number_of_variables i =
     (years, number_of_products, number_of_variables, i)"
| "catalog_loop ((k, coll) # rest) years number_of_products number_of_variables i =
     catalog_loop rest (years \<union> set (t_years coll))
       (number_of_products + t_numberOfProducts coll)
       (number_of_variables + t_numberOfVariables coll) k"

definition catalog_summary :: "theme_stats list \<Rightarrow> nat \<Rightarrow> catalog_stats" where
  \<comment> \<open>lines 322 to 337; the second argument is \<open>len(project_items)\<close>\<close>
  "catalog_summary tstats number_of_project_items =
     (case catalog_loop (enumerate 1 tstats) {} 0 0 0 of
        (years, number_of_products, number_of_variables, i) \<Rightarrow>
          \<lparr>c_numberOfProducts = number_of_products,
           c_numberOfProjects = number_of_project_items,
           c_numberOfVariables = number_of_variables,
           c_numberOfThemes = i,
           c_years = sorted_list_of_set years\<rparr>)"

section \<open>Summary projector\<close>

text \<open>
  The metrics document is a Python value that \<open>json.dump\<close> writes as it is: a dict is
  the list of its keys and values in insertion order, \<open>None\<close> is written \<open>null\<close>.
\<close>

datatype pyval =
    PNone | PStr string | PInt int | PList "pyval list" | PDict "(string \<times> pyval) list"

definition get_single_link :: "string \<Rightarrow> link list \<Rightarrow> link option" where
  \<comment> \<open>the first link of the relation, or None\<close>
  "get_single_link rel links = find (\<lambda>l. link_rel l = rel) links"

definition get_href :: "link \<Rightarrow> string" where
  \<comment> \<open>the target of a link built from a string; only hierarchical links are rewritten\<close>
  "get_href l = link_target l"

definition website :: "collection \<Rightarrow> error + pyval" where
  \<comment> \<open>line 353: \<open>get_single_link(VIA).get_href()\<close>; calling a method on None raises\<close>
  "website coll =
     (case get_single_link VIA (coll_links coll) of
        None \<Rightarrow> Inl AttributeError
      | Some l \<Rightarrow> Inr (PStr (get_href l)))"

definition years_val :: "int list \<Rightarrow> pyval" where
  "years_val ys = PList (map PInt ys)"

definition variable_entry :: "collection \<Rightarrow> variable_stats \<Rightarrow> pyval" where
  "variable_entry var_coll st =
     PDict [(''name'', PStr (coll_id var_coll)),
            (''description'', PStr (coll_description var_coll)),
            (''summary'', PDict [(''years'', years_val (v_years st)),
                                 (''numberOfProducts'', PInt (int (v_numberOfProducts st)))])]"

definition theme_entry ::
  "collection list \<Rightarrow> variable_stats list \<Rightarrow> collection \<Rightarrow> theme_stats \<Rightarrow> nat list
     \<Rightarrow> error + pyval" where
  "theme_entry variable_collections vstats theme_coll st children =
     (case website theme_coll of
        Inl e \<Rightarrow> Inl e
      | Inr href \<Rightarrow>
          Inr (PDict
            [(''name'', PStr (coll_id theme_coll)),
             (''description'', PStr (coll_description theme_coll)),
             (''image'', PStr ''...''),
             (''website'', href),
             (''summary'', PDict [(''years'', years_val (t_years st)),
                                  (''numberOfProducts'', PInt (int (t_numberOfProducts st))),
                                  (''numberOfProjects'', PInt (int (t_numberOfProjects st))),
                                  (''numberOfVariables'', PInt (int (t_numberOfVariables st)))]),
             (''variables'',
                PList (map (\<lambda>v. variable_entry (variable_collections ! v) (vstats ! v)) children))]))"

fun theme_entries ::
  "collection list \<Rightarrow> variable_stats list \<Rightarrow> (collection \<times> theme_stats \<times> nat list) list
     \<Rightarrow> error + pyval list" where
  "theme_entries variable_collections vstats [] = Inr []"
| "theme_entries variable_collections vstats ((theme_coll, st, children) # rest) =
     (case theme_entry variable_collections vstats theme_coll st children of
        Inl e \<Rightarrow> Inl e
      | Inr entry \<Rightarrow>
          (case theme_entries variable_collections vstats rest of
             Inl e \<Rightarrow> Inl e
           | Inr entries \<Rightarrow> Inr (entry # entries)))"

definition metrics_of ::
  "catalog_stats \<Rightarrow> collection list \<Rightarrow> variable_stats list
     \<Rightarrow> (collection \<times> theme_stats \<times> nat list) list \<Rightarrow> error + pyval" where
  \<comment> \<open>lines 339 to 375\<close>
  "metrics_of cstats variable_collections vstats themes =
     (case theme_entries variable_collections vstats themes of
        Inl e \<Rightarrow> Inl e
      | Inr entries \<Rightarrow>
          Inr (PDict
            [(''id'', PStr ''OSC-Catalog''),
             (''summary'', PDict [(''years'', years_val (c_years cstats)),
                                  (''numberOfProducts'', PInt (int (c_numberOfProducts cstats))),
                                  (''numberOfProjects'', PInt (int (c_numberOfProjects cstats))),
                                  (''numberOfVariables'', PInt (int (c_numberOfVariables cstats))),
                                  (''numberOfThemes'', PInt (int (c_numberOfThemes cstats)))]),
             (''themes'', PList entries)]))"

section \<open>Layout serializer\<close>

text \<open>
  The world outside the process: what has been printed, the paths that exist (files and
  directories), and the files this run has written, in order. \<open>os.makedirs\<close> raises
  when its path exists already. After \<open>os.chdir(out_dir)\<close> a relative name is a path
  below \<open>out_dir\<close>.
\<close>

record world =
  stdout :: "string list"
  paths :: "string set"
  written :: "string list"

definition say :: "string list \<Rightarrow> world \<Rightarrow> world" where
  "say printed w = w\<lparr>stdout := stdout w @ printed\<rparr>"

definition makedirs :: "string \<Rightarrow> world \<Rightarrow> error + world" where
  "makedirs name w =
     (if name \<in> paths w then Inl FileExistsError else Inr (w\<lparr>paths := insert name (paths w)\<rparr>))"

definition below :: "string \<Rightarrow> string \<Rightarrow> string" where
  "below dir name = dir @ ''/'' @ name"

definition write_file :: "string \<Rightarrow> world \<Rightarrow> world" where
  "write_file path w = w\<lparr>paths := insert path (paths w), written := written w @ [path]\<rparr>"

definition collection_func :: "('a, 'g) library \<Rightarrow> collection \<Rightarrow> string" where
  \<comment> \<open>line 402\<close>
  "collection_func L coll = lower (coll_type coll) @ ''s/'' @ lib_slugify L (coll_id coll) @ ''.json''"

definition item_func :: "string \<Rightarrow> string \<Rightarrow> string" where
  \<comment> \<open>line 403, from the item's \<open>osc:type\<close> and id\<close>
  "item_func osc_type item_id = lower osc_type @ ''s/'' @ item_id @ ''.json''"

text \<open>
  \<open>normalize_and_save\<close> walks the tree from the catalog and writes one document per
  node it reaches, at the path the layout functions give: below a collection first its
  child collections, then its items, then the collection itself.
\<close>

definition variable_paths ::
  "('a, 'g) library \<Rightarrow> collection list \<Rightarrow> 'g product_item list \<Rightarrow> nat list list \<Rightarrow> nat
     \<Rightarrow> string list" where
  "variable_paths L variable_collections product_items variable_items v =
     map (\<lambda>p. item_func (pi_type (product_items ! p)) (pi_id (product_items ! p)))
       (variable_items ! v)
     @ [collection_func L (variable_collections ! v)]"

definition theme_paths ::
  "('a, 'g) library \<Rightarrow> collection list \<Rightarrow> collection list \<Rightarrow> 'g product_item list
     \<Rightarrow> project_item list \<Rightarrow> nat list list \<Rightarrow> nat list list \<Rightarrow> nat list list \<Rightarrow> nat
     \<Rightarrow> string list" where
  "theme_paths L theme_collections variable_collections product_items project_items
     children theme_items variable_items t =
     concat (map (variable_paths L variable_collections product_items variable_items)
               (children ! t))
     @ map (\<lambda>p. item_func (pj_type (project_items ! p)) (pj_id (project_items ! p)))
         (theme_items ! t)
     @ [collection_func L (theme_collections ! t)]"

definition saved_paths ::
  "('a, 'g) library \<Rightarrow> collection list \<Rightarrow> collection list \<Rightarrow> 'g product_item list
     \<Rightarrow> project_item list \<Rightarrow> nat list list \<Rightarrow> nat list list \<Rightarrow> nat list list
     \<Rightarrow> string list" where
  "saved_paths L theme_collections variable_collections product_items project_items
     children theme_items variable_items =
     concat (map (theme_paths L theme_collections variable_collections product_items
                    project_items children theme_items variable_items)
               [0..<length theme_collections])
     @ [''catalog.json'']"

definition write_all :: "string \<Rightarrow> string list \<Rightarrow> world \<Rightarrow> world" where
  "write_all dir names w = foldl (\<lambda>w' name. write_file (below dir name) w') w names"

section \<open>The run\<close>

record 'g run =
  run_theme_collections :: "collection list"
  run_variable_collections :: "collection list"
  run_product_items :: "'g product_item list"
  run_project_items :: "project_item list"
  run_children :: "nat list list"  \<comment> \<open>per Theme, its child Variables\<close>
  run_theme_items :: "nat list list"  \<comment> \<open>per Theme, its Project items\<close>
  run_variable_items :: "nat list list"  \<comment> \<open>per Variable, its Product items\<close>
  run_variable_stats :: "variable_stats list"
  run_theme_stats :: "theme_stats list"
  run_catalog_stats :: catalog_stats
  run_metrics :: pyval

definition main ::
  "('a, 'g) library \<Rightarrow> variable_row list \<Rightarrow> theme_row list \<Rightarrow> project_row list
     \<Rightarrow> product_row list \<Rightarrow> string \<Rightarrow> world \<Rightarrow> world \<times> (error + 'g run)" where
  "main L variables themes projects products out_dir w =
     (let theme_collections = map theme_to_collection themes;
          theme_map = slug_map L theme_collections;
          variable_collections = map variable_to_collection variables;
          variable_map = slug_map L variable_collections
      in
      case product_items_of L products of
        (printed, Inl e) \<Rightarrow> (say printed w, Inl e)
      | (printed, Inr product_items) \<Rightarrow>
     (let w1 = say printed w in
      case project_items_of L projects of
        Inl e \<Rightarrow> (w1, Inl e)
      | Inr project_items \<Rightarrow>
     (case place_variables L theme_map (enumerate 0 variable_collections)
             (replicate (length theme_collections) []) of
        Inl e \<Rightarrow> (w1, Inl e)
      | Inr children \<Rightarrow>
     (case put_products L variable_map (enumerate 0 product_items) None []
             (replicate (length variable_collections) []) of
        (printed', Inl e) \<Rightarrow> (say printed' w1, Inl e)
      | (printed', Inr variable_items) \<Rightarrow>
     (let w2 = say printed' w1 in
      case put_projects L theme_map (enumerate 0 project_items)
             (replicate (length theme_collections) []) of
        Inl e \<Rightarrow> (w2, Inl e)
      | Inr theme_items \<Rightarrow>
     (case variable_summaries L product_items variable_items of
        Inl e \<Rightarrow> (w2, Inl e)
      | Inr vstats \<Rightarrow>
     (let tstats = map (\<lambda>(ch, its). theme_summary vstats ch its) (zip children theme_items);
          cstats = catalog_summary tstats (length project_items)
      in
      case metrics_of cstats variable_collections vstats
             (zip theme_collections (zip tstats children)) of
        Inl e \<Rightarrow> (w2, Inl e)
      | Inr metrics \<Rightarrow>
     (case makedirs out_dir w2 of
        Inl e \<Rightarrow> (w2, Inl e)
      | Inr w3 \<Rightarrow>
          (write_all out_dir
             (saved_paths L theme_collections variable_collections product_items
                project_items children theme_items variable_items)
             (write_file (below out_dir ''metrics.json'') w3),
           Inr \<lparr>run_theme_collections = theme_collections,
                run_variable_collections = variable_collections,
                run_product_items = product_items,
                run_project_items = project_items,
                run_children = children,
                run_theme_items = theme_items,
                run_variable_items = variable_items,
                run_variable_stats = vstats,
                run_theme_stats = tstats,
                run_catalog_stats = cstats,
                run_metrics = metrics\<rparr>)))))))))"

section \<open>A concrete library for evaluation\<close>

text \<open>
  The closed examples below run the program with the slug function of the spec, a
  \<open>json.loads\<close> that knows the texts \<open>[]\<close> and \<open>[1, 2]\<close> and rejects every other, and
  a date parser for the ISO strings that \<open>isoformat\<close> produces.
\<close>

definition iso_parse :: "string \<Rightarrow> error + datetime" where
  "iso_parse s =
     and_then (py_int (take 4 s)) (\<lambda>y.
     and_then (py_int (take 2 (drop 5 s))) (\<lambda>m.
     and_then (py_int (take 2 (drop 8 s))) (\<lambda>d. py_datetime y m d)))"

definition example_loads :: "string \<Rightarrow> error + int json" where
  "example_loads s =
     (if s = ''[]'' then Inr (JList [])
      else if s = ''[1, 2]'' then Inr (JList [JAtom 1, JAtom 2])
      else Inl ValueError)"

definition example_library :: "(int, int json list) library" where
  "example_library =
     \<lparr>lib_slugify = slugify,
      lib_json_loads = example_loads,
      lib_Point = (\<lambda>coords. Inr coords),
      lib_Polygon = (\<lambda>shell holes. Inr (shell # (case holes of None \<Rightarrow> [] | Some hs \<Rightarrow> hs))),
      lib_bool = (\<lambda>g. True),
      lib_parse = iso_parse\<rparr>"

definition theme_of :: "string \<Rightarrow> string \<Rightarrow> theme_row" where
  "theme_of name href = \<lparr>theme_theme = name, theme_description = [], theme_link = href\<rparr>"

definition variable_of :: "string \<Rightarrow> string \<Rightarrow> variable_row" where
  "variable_of name theme =
     \<lparr>variable_variable = name, variable_description = [], variable_theme = theme,
      variable_link = []\<rparr>"

definition product_of :: "string \<Rightarrow> string \<Rightarrow> string \<Rightarrow> string \<Rightarrow> product_row" where
  "product_of ident variable start polygon =
     \<lparr>product_ID = ident, product_Product = [], product_Start = start, product_End = [],
      product_Polygon = polygon, product_Variable = variable, product_Themes = [],
      product_Website = [], product_Access = [], product_Documentation = []\<rparr>"

definition project_of :: "string \<Rightarrow> string list \<Rightarrow> project_row" where
  "project_of ident themes =
     \<lparr>project_Project_ID = ident, project_Project_Name = [],
      project_Start_Date_Project = ''2020-01-01T00:00:00'',
      project_End_Date_Project = ''2021-01-01T00:00:00'',
      project_Themes = themes, project_Website = [], project_Eo4Society_link = []\<rparr>"

definition fresh :: world where
  "fresh = \<lparr>stdout = [], paths = {}, written = []\<rparr>"

section \<open>Reading a finished run\<close>

definition reachable_projects :: "'g run \<Rightarrow> nat set" where
  \<comment> \<open>the Project nodes that are an item of some Theme\<close>
  "reachable_projects r = set (concat (run_theme_items r))"

definition dict_get :: "string \<Rightarrow> pyval \<Rightarrow> pyval option" where
  \<comment> \<open>the value under a key of a dict, None when the key is not there\<close>
  "dict_get key v = (case v of PDict kvs \<Rightarrow> map_of kvs key | _ \<Rightarrow> None)"

definition theme_docs :: "pyval \<Rightarrow> pyval list" where
  \<comment> \<open>the entries under \<open>themes\<close> of the metrics document\<close>
  "theme_docs metrics = (case dict_get ''themes'' metrics of Some (PList entries) \<Rightarrow> entries | _ \<Rightarrow> [])"

section \<open>Basic facts\<close>

text \<open>The definitions, collected for evaluating the program on concrete registries.\<close>

lemmas builtin_defs = and_then_def is_space_def is_digit_def digit_val_def strip_def py_int_def
  fits_c_int_def is_leap_def days_in_month_def py_datetime_def digit_char_def pad2_def pad4_def
  isoformat_def is_alnum_def lower_char_def lower_def slugify_def startswith_def

lemmas builder_defs = parse_date_def build_geom_def geo_interface_def get_geometry_def VIA_def
  get_themes_def date_property_def date_argument_def product_to_item_def project_to_item_def
  theme_to_collection_def variable_to_collection_def

lemmas run_defs = add_to_def dict_of_def slug_map_def variable_summary_def theme_summary_def
  catalog_summary_def get_single_link_def get_href_def website_def years_val_def
  variable_entry_def theme_entry_def metrics_of_def say_def makedirs_def below_def write_file_def
  collection_func_def item_func_def variable_paths_def theme_paths_def saved_paths_def
  write_all_def main_def Let_def

lemmas example_defs = iso_parse_def example_loads_def example_library_def theme_of_def
  variable_of_def product_of_def project_of_def fresh_def

lemmas evaluation = builtin_defs builder_defs run_defs example_defs
  reachable_projects_def dict_get_def theme_docs_def

lemma and_then_Inr [simp]: "and_then (Inr v) f = f v"
  by (simp add: and_then_def)

lemma and_then_Inl [simp]: "and_then (Inl e) f = Inl e"
  by (simp add: and_then_def)



section \<open>The date parser\<close>






lemma written_say [simp]: "written (say printed w) = written w"
  by (simp add: say_def)

lemma paths_say [simp]: "paths (say printed w) = paths w"
  by (simp add: say_def)



section \<open>The reference normalizer\<close>

lemma collapse_stable:
  "collapse b' (collapse True s) = collapse True s \<and> collapse False (collapse False s) = collapse False s"
proof (induction s arbitrary: b')
  case Nil
  show ?case by simp
next
  case (Cons c cs)
  have dash: "\<not> is_alnum CHR ''-''" by (simp add: is_alnum_def)
  show ?case using Cons dash by simp
qed

lemma lower_char_idem: "lower_char (lower_char c) = lower_char c"
proof (cases "65 \<le> (of_char c :: nat) \<and> (of_char c :: nat) \<le> 90")
  case True
  have small: "\<forall>l \<in> set ''abcdefghijklmnopqrstuvwxyz''. lower_char l = l"
    by (simp add: lower_char_def)
  have len: "length ''abcdefghijklmnopqrstuvwxyz'' = 26"
    by simp
  from True have "(of_char c :: nat) - 65 < 26"
    by arith
  then have "(of_char c :: nat) - 65 < length ''abcdefghijklmnopqrstuvwxyz''"
    by (simp only: len)
  then have "''abcdefghijklmnopqrstuvwxyz'' ! ((of_char c :: nat) - 65)
               \<in> set ''abcdefghijklmnopqrstuvwxyz''"
    by (rule nth_mem)
  with small have "lower_char (''abcdefghijklmnopqrstuvwxyz'' ! ((of_char c :: nat) - 65))
                     = ''abcdefghijklmnopqrstuvwxyz'' ! ((of_char c :: nat) - 65)"
    by blast
  with True show ?thesis by (simp add: lower_char_def [of c] Let_def)
next
  case False
  then show ?thesis by (auto simp: lower_char_def Let_def)
qed

lemma lower_char_dash: "lower_char CHR ''-'' = CHR ''-''"
  by (simp add: lower_char_def)

lemma lower_collapse:
  "\<forall>c \<in> set s. lower_char c = c \<Longrightarrow> map lower_char (collapse b s) = collapse b s"
  by (induction s arbitrary: b) (simp_all add: lower_char_dash)

text \<open>
  C7. Normalizing a key twice gives the key normalized once:
  \<open>slugify (slugify x) = slugify x\<close> for every string.
\<close>

theorem slugify_idempotent: "slugify (slugify x) = slugify x"
proof -
  have "\<forall>c \<in> set (lower x). lower_char c = c"
    by (auto simp: lower_def lower_char_idem)
  then have "lower (collapse False (lower x)) = collapse False (lower x)"
    unfolding lower_def [of "collapse False (map lower_char x)"] by (simp add: lower_collapse lower_def)
  then show ?thesis
    by (simp add: slugify_def collapse_stable)
qed


section \<open>A run that completes\<close>


lemma main_Inr:
  assumes "main L variables themes projects products out_dir w = (w', Inr r)"
  obtains printed printed' w3 where
    "run_theme_collections r = map theme_to_collection themes"
    "run_variable_collections r = map variable_to_collection variables"
    "product_items_of L products = (printed, Inr (run_product_items r))"
    "project_items_of L projects = Inr (run_project_items r)"
    "place_variables L (slug_map L (map theme_to_collection themes))
       (enumerate 0 (map variable_to_collection variables))
       (replicate (length themes) []) = Inr (run_children r)"
    "put_products L (slug_map L (map variable_to_collection variables))
       (enumerate 0 (run_product_items r)) None []
       (replicate (length variables) []) = (printed', Inr (run_variable_items r))"
    "put_projects L (slug_map L (map theme_to_collection themes))
       (enumerate 0 (run_project_items r)) (replicate (length themes) []) = Inr (run_theme_items r)"
    "variable_summaries L (run_product_items r) (run_variable_items r) = Inr (run_variable_stats r)"
    "run_theme_stats r = map (\<lambda>(ch, its). theme_summary (run_variable_stats r) ch its)
       (zip (run_children r) (run_theme_items r))"
    "run_catalog_stats r = catalog_summary (run_theme_stats r) (length (run_project_items r))"
    "metrics_of (run_catalog_stats r) (map variable_to_collection variables) (run_variable_stats r)
       (zip (map theme_to_collection themes) (zip (run_theme_stats r) (run_children r)))
       = Inr (run_metrics r)"
    "makedirs out_dir (say printed' (say printed w)) = Inr w3"
  using assms unfolding main_def Let_def
  by (auto split: prod.splits sum.splits)


section \<open>Facts about the hierarchy\<close>

lemma slug_map_range: "slug_map L colls k = Some i \<Longrightarrow> i < length colls"
proof -
  assume "slug_map L colls k = Some i"
  then have "(k, i) \<in> set (map (\<lambda>(i, coll). (lib_slugify L (coll_id coll), i)) (enumerate 0 colls))"
    unfolding slug_map_def dict_of_def by (auto dest: map_of_SomeD)
  then show ?thesis by (auto simp: in_set_enumerate_eq)
qed

lemma length_add_to [simp]: "length (add_to parent x ls) = length ls"
  by (simp add: add_to_def)


lemma set_concat_add_to:
  assumes "t < length ls"
  shows "set (concat (add_to t x ls)) = insert x (set (concat ls))"
proof -
  have "ls = take t ls @ (ls ! t) # drop (Suc t) ls"
    using assms by (rule id_take_nth_drop)
  then have "concat ls = concat (take t ls @ (ls ! t) # drop (Suc t) ls)"
    by simp
  then have old: "concat ls = concat (take t ls) @ ls ! t @ concat (drop (Suc t) ls)"
    by simp
  have "add_to t x ls = take t ls @ (ls ! t @ [x]) # drop (Suc t) ls"
    unfolding add_to_def using assms by (rule upd_conv_take_nth_drop)
  then have new: "concat (add_to t x ls)
                    = concat (take t ls) @ (ls ! t @ [x]) @ concat (drop (Suc t) ls)"
    by simp
  show ?thesis unfolding new by (subst old) auto
qed

lemma place_variables_length:
  "place_variables L tm evs ch = Inr ch' \<Longrightarrow> length ch' = length ch"
  by (induction L tm evs ch rule: place_variables.induct) (auto split: option.splits)



lemma put_project_length:
  "put_project L tm p themes items = Inr items' \<Longrightarrow> length items' = length items"
  by (induction L tm p themes items rule: put_project.induct) (auto split: option.splits)

lemma put_projects_length:
  "put_projects L tm eps items = Inr items' \<Longrightarrow> length items' = length items"
  by (induction L tm eps items rule: put_projects.induct)
    (auto split: sum.splits dest: put_project_length)

lemma put_project_reach:
  assumes "put_project L tm p themes items = Inr items'"
    and "\<And>k t. tm k = Some t \<Longrightarrow> t < length items"
  shows "set (concat items') = set (concat items) \<union> (if themes = [] then {} else {p})"
  using assms
proof (induction L tm p themes items rule: put_project.induct)
  case (1 L tm p items)
  then show ?case by simp
next
  case (2 L tm p theme rest items)
  from "2.prems"(1) obtain t where t: "tm (lib_slugify L theme) = Some t"
    and rest: "put_project L tm p rest (add_to t p items) = Inr items'"
    by (auto split: option.splits)
  have "t < length items" using t "2.prems"(2) by blast
  then have here: "set (concat (add_to t p items)) = insert p (set (concat items))"
    by (rule set_concat_add_to)
  have "set (concat items') = set (concat (add_to t p items)) \<union> (if rest = [] then {} else {p})"
    using "2.IH" [OF t rest] "2.prems"(2) by simp
  with here show ?case by auto
qed

lemma put_projects_reach:
  assumes "put_projects L tm eps items = Inr items'"
    and "\<And>k t. tm k = Some t \<Longrightarrow> t < length items"
  shows "set (concat items')
           = set (concat items) \<union> {p. \<exists>item. (p, item) \<in> set eps \<and> pj_themes item \<noteq> []}"
  using assms
proof (induction L tm eps items rule: put_projects.induct)
  case (1 L tm items)
  then show ?case by simp
next
  case (2 L tm p item rest items)
  from "2.prems"(1) obtain mid where mid: "put_project L tm p (pj_themes item) items = Inr mid"
    and rest: "put_projects L tm rest mid = Inr items'"
    by (auto split: sum.splits)
  have len: "length mid = length items" using mid by (rule put_project_length)
  have a: "set (concat mid) = set (concat items) \<union> (if pj_themes item = [] then {} else {p})"
    using mid "2.prems"(2) by (rule put_project_reach)
  have b: "set (concat items')
             = set (concat mid) \<union> {q. \<exists>it. (q, it) \<in> set rest \<and> pj_themes it \<noteq> []}"
    using "2.IH" [OF mid rest] "2.prems"(2) len by simp
  show ?case unfolding b a by auto
qed

lemma project_items_of_nth:
  "project_items_of L projects = Inr items
     \<Longrightarrow> length items = length projects
         \<and> (\<forall>p < length projects. pj_themes (items ! p) = get_themes (project_Themes (projects ! p)))"
proof (induction projects arbitrary: items)
  case Nil
  then show ?case by simp
next
  case (Cons a projects)
  from Cons.prems obtain item items0 where a: "project_to_item L a = Inr item"
    and rest: "project_items_of L projects = Inr items0" and items: "items = item # items0"
    by (auto split: sum.splits)
  have "pj_themes item = get_themes (project_Themes a)"
    using a by (auto simp: project_to_item_def and_then_def split: sum.splits)
  with Cons.IH [OF rest] items show ?case
    by (auto simp: nth_Cons split: nat.splits)
qed


section \<open>Facts about the aggregation\<close>




lemma catalog_summary_projects [simp]:
  "c_numberOfProjects (catalog_summary tstats n) = n"
  by (simp add: catalog_summary_def split: prod.splits)


text \<open>
  C4 (as the code has it). In a run that completes, the catalog's project count is the
  number of Project nodes built from the projects registry, each counted once however
  many Themes it is attached to. The Project nodes reachable from a Theme are those
  with at least one theme membership; so when every Project has one, the count is the
  number of distinct Project nodes reachable from any Theme.
\<close>

theorem catalog_number_of_projects:
  assumes "main L variables themes projects products out_dir w = (w', Inr r)"
  shows "c_numberOfProjects (run_catalog_stats r) = length projects
         \<and> card (reachable_projects r)
             = length (filter (\<lambda>p. get_themes (project_Themes p) \<noteq> []) projects)
         \<and> ((\<forall>p \<in> set projects. get_themes (project_Themes p) \<noteq> [])
              \<longrightarrow> c_numberOfProjects (run_catalog_stats r) = card (reachable_projects r))"
proof -
  from assms(1) obtain printed :: "string list" and printed' :: "string list" and w3 :: world where
    pj: "project_items_of L projects = Inr (run_project_items r)"
    and ti: "put_projects L (slug_map L (map theme_to_collection themes))
       (enumerate 0 (run_project_items r)) (replicate (length themes) []) = Inr (run_theme_items r)"
    and cs: "run_catalog_stats r = catalog_summary (run_theme_stats r) (length (run_project_items r))"
    by (rule main_Inr)
  have len: "length (run_project_items r) = length projects"
    and themes: "\<forall>p < length projects.
        pj_themes (run_project_items r ! p) = get_themes (project_Themes (projects ! p))"
    using project_items_of_nth [OF pj] by simp_all
  have count: "c_numberOfProjects (run_catalog_stats r) = length projects"
    using cs len by simp
  have "set (concat (run_theme_items r))
          = set (concat (replicate (length themes) ([]::nat list)))
            \<union> {p. \<exists>item. (p, item) \<in> set (enumerate 0 (run_project_items r)) \<and> pj_themes item \<noteq> []}"
    using ti
  proof (rule put_projects_reach)
    fix k t
    assume "slug_map L (map theme_to_collection themes) k = Some t"
    from slug_map_range [OF this] show "t < length (replicate (length themes) ([]::nat list))"
      by simp
  qed
  then have "reachable_projects r
          = {p. p < length projects \<and> get_themes (project_Themes (projects ! p)) \<noteq> []}"
    using len themes by (auto simp: reachable_projects_def in_set_enumerate_eq)
  then have reach: "card (reachable_projects r)
          = length (filter (\<lambda>p. get_themes (project_Themes p) \<noteq> []) projects)"
    by (simp add: length_filter_conv_card)
  have "length (filter (\<lambda>p. get_themes (project_Themes p) \<noteq> []) projects) = length projects"
    if "\<forall>p \<in> set projects. get_themes (project_Themes p) \<noteq> []"
    using that by simp
  with count reach show ?thesis by simp
qed

text \<open>
  C8. When the output directory exists already, the run fails, and it has written no
  file and created no path: neither a node file nor the metrics document.
\<close>

theorem existing_out_dir_fails:
  assumes "out_dir \<in> paths w"
  shows "\<exists>w' e. main L variables themes projects products out_dir w = (w', Inl e)
           \<and> written w' = written w \<and> paths w' = paths w"
  using assms unfolding main_def Let_def
  by (auto simp: makedirs_def split: prod.splits sum.splits)

section \<open>The summary projector\<close>

lemma website_theme: "website (theme_to_collection obj) = Inr (PStr (theme_link obj))"
  by (simp add: website_def get_single_link_def theme_to_collection_def get_href_def)

lemma theme_entries_nth:
  "theme_entries vcolls vstats rows = Inr entries
     \<Longrightarrow> length entries = length rows
         \<and> (\<forall>t < length rows. case rows ! t of (theme_coll, st, children) \<Rightarrow>
               theme_entry vcolls vstats theme_coll st children = Inr (entries ! t))"
proof (induction rows arbitrary: entries)
  case Nil
  then show ?case by simp
next
  case (Cons a rows)
  obtain theme_coll st children where a: "a = (theme_coll, st, children)"
    by (cases a) auto
  from Cons.prems a obtain entry entries0
    where e: "theme_entry vcolls vstats theme_coll st children = Inr entry"
    and rest: "theme_entries vcolls vstats rows = Inr entries0" and es: "entries = entry # entries0"
    by (auto split: sum.splits)
  with Cons.IH [OF rest] a show ?case
    by (auto simp: nth_Cons split: nat.splits)
qed

lemma theme_entry_website:
  "theme_entry vcolls vstats (theme_to_collection obj) st children = Inr entry
     \<Longrightarrow> dict_get ''website'' entry = Some (PStr (theme_link obj))"
  by (auto simp: theme_entry_def website_theme dict_get_def)

lemma metrics_of_docs:
  "metrics_of cstats vcolls vstats rows = Inr m
     \<Longrightarrow> theme_entries vcolls vstats rows = Inr (theme_docs m)"
  by (auto simp: metrics_of_def theme_docs_def dict_get_def split: sum.splits)

text \<open>
  C9 (as the code has it). The Theme builder always attaches an external-reference link
  whose target is the row's link cell, so the projector never fails to find one; in a
  run that completes, every Theme entry of the metrics document has a \<open>website\<close>
  field, and it holds the link cell as it is (the empty string for an empty cell).
\<close>

theorem theme_website_always_present:
  assumes "main L variables themes projects products out_dir w = (w', Inr r)"
    and "t < length themes"
  shows "website (theme_to_collection (themes ! t)) = Inr (PStr (theme_link (themes ! t)))
         \<and> length (theme_docs (run_metrics r)) = length themes
         \<and> dict_get ''website'' (theme_docs (run_metrics r) ! t) = Some (PStr (theme_link (themes ! t)))"
proof -
  from assms(1) obtain printed :: "string list" and printed' :: "string list" and w3 :: world where
    ch: "place_variables L (slug_map L (map theme_to_collection themes))
       (enumerate 0 (map variable_to_collection variables))
       (replicate (length themes) []) = Inr (run_children r)"
    and ti: "put_projects L (slug_map L (map theme_to_collection themes))
       (enumerate 0 (run_project_items r)) (replicate (length themes) []) = Inr (run_theme_items r)"
    and ts: "run_theme_stats r = map (\<lambda>(ch, its). theme_summary (run_variable_stats r) ch its)
       (zip (run_children r) (run_theme_items r))"
    and me: "metrics_of (run_catalog_stats r) (map variable_to_collection variables) (run_variable_stats r)
       (zip (map theme_to_collection themes) (zip (run_theme_stats r) (run_children r)))
       = Inr (run_metrics r)"
    by (rule main_Inr)
  have len_ch: "length (run_children r) = length themes"
    using place_variables_length [OF ch] by simp
  have len_ti: "length (run_theme_items r) = length themes"
    using put_projects_length [OF ti] by simp
  have len_ts: "length (run_theme_stats r) = length themes"
    using len_ch len_ti by (simp add: ts)
  let ?rows = "zip (map theme_to_collection themes) (zip (run_theme_stats r) (run_children r))"
  define entries where "entries = theme_docs (run_metrics r)"
  have es: "theme_entries (map variable_to_collection variables) (run_variable_stats r) ?rows
              = Inr entries"
    unfolding entries_def using me by (rule metrics_of_docs)
  have docs: "theme_docs (run_metrics r) = entries"
    by (simp add: entries_def)
  have len_rows: "length ?rows = length themes"
    using len_ch len_ts by simp
  have row: "?rows ! t = (theme_to_collection (themes ! t), run_theme_stats r ! t, run_children r ! t)"
    using assms(2) len_ch len_ts by simp
  from theme_entries_nth [OF es] len_rows assms(2) row
  have "length entries = length themes"
    and "theme_entry (map variable_to_collection variables) (run_variable_stats r)
           (theme_to_collection (themes ! t)) (run_theme_stats r ! t) (run_children r ! t)
           = Inr (entries ! t)"
    by auto
  with docs theme_entry_website website_theme show ?thesis by auto
qed

lemma count_loop_enumerate:
  "count_loop (enumerate n items) i = (if items = [] then i else n + length items - 1)"
  by (induction items arbitrary: n i) simp_all

lemma theme_loop_count:
  "snd (snd (theme_loop vstats (enumerate n children) years acc i))
     = (if children = [] then i else n + length children - 1)"
  by (induction children arbitrary: n years acc i) simp_all

lemma theme_summary_counts:
  "t_numberOfVariables (theme_summary vstats children items) = length children"
  "t_numberOfProjects (theme_summary vstats children items)
     = (if items = [] then length children else length items)"
proof -
  obtain years n i where loop: "theme_loop vstats (enumerate 1 children) {} 0 0 = (years, n, i)"
    by (rule prod_cases3)
  with theme_loop_count [of vstats 1 children "{}" 0 0] have i: "i = length children"
    by (simp split: if_splits)
  from loop i show "t_numberOfVariables (theme_summary vstats children items) = length children"
    by (simp add: theme_summary_def)
  from loop i show "t_numberOfProjects (theme_summary vstats children items)
     = (if items = [] then length children else length items)"
    by (simp add: theme_summary_def count_loop_enumerate)
qed

section \<open>Runs on concrete registries\<close>

lemma run_cases:
  assumes "case snd x of Inl e \<Rightarrow> False | Inr r \<Rightarrow> True"
  obtains w' r where "x = (w', Inr r)"
  using assms by (cases x) (auto split: sum.splits)


text \<open>One Project attached under three Themes is counted once.\<close>

theorem catalog_number_of_projects_witness:
  "\<exists>w' r. main example_library []
             [theme_of ''Climate'' [], theme_of ''Land'' [], theme_of ''Ocean'' []]
             [project_of ''1'' [''Climate'', ''Land'', ''Ocean'', [], [], []]] [] ''dist'' fresh
             = (w', Inr r)
      \<and> run_theme_items r = [[0], [0], [0]]
      \<and> c_numberOfProjects (run_catalog_stats r) = 1
      \<and> card (reachable_projects r) = 1"
proof -
  let ?run = "main example_library []
             [theme_of ''Climate'' [], theme_of ''Land'' [], theme_of ''Ocean'' []]
             [project_of ''1'' [''Climate'', ''Land'', ''Ocean'', [], [], []]] [] ''dist'' fresh"
  have "case snd ?run of Inl e \<Rightarrow> False | Inr r \<Rightarrow> True"
    by (simp add: evaluation)
  then obtain w' r where run: "?run = (w', Inr r)"
    by (rule run_cases)
  have "map_sum id run_theme_items (snd ?run) = Inr [[0], [0], [0]]"
    by (simp add: evaluation)
  with run have items: "run_theme_items r = [[0], [0], [0]]"
    by simp
  have "\<forall>p \<in> set [project_of ''1'' [''Climate'', ''Land'', ''Ocean'', [], [], []]].
          get_themes (project_Themes p) \<noteq> []"
    by (simp add: project_of_def get_themes_def)
  with catalog_number_of_projects [OF run] items run show ?thesis
    by simp
qed

text \<open>
  C4 as stated fails on a Project without theme membership: no Theme reaches it, and
  the catalog counts it.
\<close>

theorem unreachable_project_counterexample:
  "map_sum id (c_numberOfProjects \<circ> run_catalog_stats)
     (snd (main example_library [] [theme_of ''Climate'' []]
             [project_of ''1'' [[], [], [], [], [], []]] [] ''dist'' fresh))
   = Inr 1
   \<and> map_sum id (card \<circ> reachable_projects)
     (snd (main example_library [] [theme_of ''Climate'' []]
             [project_of ''1'' [[], [], [], [], [], []]] [] ''dist'' fresh))
   = Inr 0"
  by (simp add: evaluation)

text \<open>
  A run into an existing, non-empty \<open>dist\<close> raises FileExistsError and writes
  nothing; the same registries into a fresh world write the metrics document and the
  node files.
\<close>

theorem existing_out_dir_fails_witness:
  "''dist'' \<in> paths \<lparr>stdout = [], paths = {''dist'', ''dist/catalog.json''}, written = []\<rparr>
   \<and> (\<exists>w' e. main example_library [] [theme_of ''Climate'' []] [] [] ''dist''
                \<lparr>stdout = [], paths = {''dist'', ''dist/catalog.json''}, written = []\<rparr> = (w', Inl e)
          \<and> written w' = [] \<and> paths w' = {''dist'', ''dist/catalog.json''})
   \<and> snd (main example_library [] [theme_of ''Climate'' []] [] [] ''dist''
                \<lparr>stdout = [], paths = {''dist'', ''dist/catalog.json''}, written = []\<rparr>)
       = Inl FileExistsError
   \<and> written (fst (main example_library [] [theme_of ''Climate'' []] [] [] ''dist'' fresh))
       = [''dist/metrics.json'', ''dist/themes/climate.json'', ''dist/catalog.json'']"
proof -
  let ?w = "\<lparr>stdout = [], paths = {''dist'', ''dist/catalog.json''}, written = []\<rparr>"
  have a: "''dist'' \<in> paths ?w" by simp
  have b: "snd (main example_library [] [theme_of ''Climate'' []] [] [] ''dist'' ?w)
       = Inl FileExistsError"
    by (simp add: evaluation)
  have c: "written (fst (main example_library [] [theme_of ''Climate'' []] [] [] ''dist'' fresh))
       = [''dist/metrics.json'', ''dist/themes/climate.json'', ''dist/catalog.json'']"
    by (simp add: evaluation)
  from existing_out_dir_fails [OF a, of example_library "[]" "[theme_of ''Climate'' []]" "[]" "[]"] a b c
  show ?thesis by simp
qed

theorem theme_website_always_present_witness:
  "\<exists>w' r. main example_library [] [theme_of ''Climate'' ''https://climate.example'']
             [] [] ''dist'' fresh = (w', Inr r)
      \<and> dict_get ''website'' (theme_docs (run_metrics r) ! 0) = Some (PStr ''https://climate.example'')"
proof -
  let ?run = "main example_library [] [theme_of ''Climate'' ''https://climate.example'']
             [] [] ''dist'' fresh"
  have "case snd ?run of Inl e \<Rightarrow> False | Inr r \<Rightarrow> True"
    by (simp add: evaluation)
  then obtain w' r where run: "?run = (w', Inr r)"
    by (rule run_cases)
  from theme_website_always_present [OF run, of 0] run show ?thesis
    by (simp add: theme_of_def)
qed

text \<open>
  C9 as stated fails on a Theme whose link cell is empty: the entry still has its
  \<open>website\<close> field, holding the empty string; the field is not omitted.
\<close>

theorem empty_link_website_counterexample:
  "map_sum id (\<lambda>r. map (dict_get ''website'') (theme_docs (run_metrics r)))
     (snd (main example_library [] [theme_of ''Land'' []] [] [] ''dist'' fresh))
   = Inr [Some (PStr [])]"
  by (simp add: evaluation)

section \<open>Where the code leaves its documented behaviour\<close>

text \<open>
  C1. A Product whose variable does not resolve is reported, and then attached all the
  same: to the Variable of the last Product that did resolve. Here the second Product
  names no Variable and ends among the items of Soil Moisture. When no Product has
  resolved before it, the run aborts with UnboundLocalError.
\<close>

theorem unresolved_product_attached:
  "stdout (fst (main example_library [variable_of ''Soil Moisture'' ''Climate'']
             [theme_of ''Climate'' []] []
             [product_of ''1'' ''Soil Moisture'' [] [], product_of ''2'' ''Unknown'' [] []]
             ''dist'' fresh))
     = [''Missing variable Unknown'']
   \<and> map_sum id run_variable_items
       (snd (main example_library [variable_of ''Soil Moisture'' ''Climate'']
             [theme_of ''Climate'' []] []
             [product_of ''1'' ''Soil Moisture'' [] [], product_of ''2'' ''Unknown'' [] []]
             ''dist'' fresh))
     = Inr [[0, 1]]
   \<and> snd (main example_library [variable_of ''Soil Moisture'' ''Climate'']
             [theme_of ''Climate'' []] []
             [product_of ''2'' ''Unknown'' [] [], product_of ''1'' ''Soil Moisture'' [] []]
             ''dist'' fresh)
     = Inl UnboundLocalError"
  by (simp add: evaluation)

text \<open>
  C2. The counter of the Project loop is not reset after the Variable loop: a Theme
  with one Variable and no Project records one project (see \<open>theme_summary_counts\<close>
  for the general rule).
\<close>

theorem theme_without_projects_count:
  "map_sum id (\<lambda>r. (run_theme_items r, map t_numberOfVariables (run_theme_stats r),
                     map t_numberOfProjects (run_theme_stats r)))
     (snd (main example_library [variable_of ''Soil Moisture'' ''Climate'']
             [theme_of ''Climate'' []] [] [] ''dist'' fresh))
   = Inr ([[]], [1], [1])"
  by (simp add: evaluation)

text \<open>
  The inputs on which \<open>get_geometry\<close> returns an absent geometry without raising:
  the absent and the empty string, the \<open>Multipolygon\<close> prefix, a text that
  \<open>json.loads\<close> rejects (printed), and a value of a depth other than 1 and 3.
\<close>

lemma get_geometry_absent:
  "get_geometry L None = ([], Inr None)"
  "get_geometry L (Some []) = ([], Inr None)"
  "startswith s ''Multipolygon'' \<Longrightarrow> get_geometry L (Some s) = ([], Inr None)"
  "s \<noteq> [] \<Longrightarrow> \<not> startswith s ''Multipolygon'' \<Longrightarrow> lib_json_loads L s = Inl ValueError
     \<Longrightarrow> get_geometry L (Some s) = ([s], Inr None)"
  "s \<noteq> [] \<Longrightarrow> \<not> startswith s ''Multipolygon'' \<Longrightarrow> lib_json_loads L s = Inr raw
     \<Longrightarrow> get_depth raw = Inr d \<Longrightarrow> d \<noteq> 1 \<Longrightarrow> d \<noteq> 3
     \<Longrightarrow> get_geometry L (Some s) = ([], Inr None)"
  by (auto simp: get_geometry_def build_geom_def geo_interface_def split: json.splits list.splits)

text \<open>
  C5. \<open>get_depth\<close> reads the first element of every list, so it raises IndexError on
  the empty array; \<open>get_geometry\<close> does not catch it, and a Product whose Polygon
  cell is \<open>[]\<close> aborts the run.
\<close>

theorem empty_array_geometry_raises:
  "get_depth (JList ([] :: int json list)) = Inl IndexError
   \<and> get_geometry example_library (Some ''[]'') = ([], Inl IndexError)
   \<and> snd (main example_library [] [] [] [product_of ''1'' ''Soil Moisture'' [] ''[]''] ''dist'' fresh)
       = Inl IndexError"
  by (simp add: evaluation)

end
